theory Spec2Isabelle
  imports Complex_Main "HOL-Library.Multiset"
begin

section \<open>Conventions\<close>

text \<open>
  The sources are the React pages of the Dune Weaver front end (Studio, Settings,
  Playlists, History), concatenated in \<^verbatim>\<open>src/frontend/src/pages/StudioPage.tsx\<close>.

  A TypeScript \<^verbatim>\<open>number\<close> is modelled as a \<^typ>\<open>real\<close>; there is no \<^verbatim>\<open>NaN\<close>, no
  infinity and no signed zero.  Where the result of a claim depends on the rounding
  of doubles (the normalisation of loaded points, the interpolation between two
  points when a pattern is saved) the arithmetic is double arithmetic, every result
  rounded by \<open>fl\<close>.  The other parts (transform, polar conversion, unwrapping of the
  angle, pause times, zoom) compute with exact real numbers.  Where the source uses
  a number only as an array index or a count it is an \<^typ>\<open>int\<close> or a \<^typ>\<open>nat\<close>.
  React state is passed explicitly: a handler takes the state it reads and returns
  the state it sets.
\<close>

section \<open>Double arithmetic\<close>

text \<open>
  The result of an arithmetic operation on doubles is the exact result rounded to
  the nearest double, a tie going to the even significand.  \<open>fl z\<close> is the real
  number \<open>z\<close> rounded to 53 significant bits: with \<open>2\<^sup>e \<le> |z| < 2\<^sup>e\<^sup>+\<^sup>1\<close> it is the
  multiple of \<open>2\<^sup>e\<^sup>-\<^sup>5\<^sup>2\<close> nearest to \<open>z\<close>.  The exponent is not bounded: there is no
  overflow to \<^verbatim>\<open>Infinity\<close> and there are no subnormal numbers, which concerns
  magnitudes above \<open>2\<^sup>1\<^sup>0\<^sup>2\<^sup>4\<close> and below \<open>2\<^sup>-\<^sup>1\<^sup>0\<^sup>2\<^sup>2\<close> only.  The operators \<^verbatim>\<open>+\<close>,
  \<^verbatim>\<open>-\<close>, \<^verbatim>\<open>*\<close>, \<^verbatim>\<open>/\<close> and \<^verbatim>\<open>Math.sqrt\<close> are \<open>fl\<close> of the exact result, and so
  is \<^verbatim>\<open>Math.pow(v, 2)\<close> of the exact square.
\<close>

definition round_even :: "real \<Rightarrow> int" where
  "round_even x =
     (let f = \<lfloor>x\<rfloor>; r = x - of_int f
      in if r < 1 / 2 then f
         else if r > 1 / 2 then f + 1
         else if even f then f else f + 1)"

definition two_pow :: "int \<Rightarrow> real" where
  "two_pow k = (if 0 \<le> k then 2 ^ nat k else 1 / 2 ^ nat (- k))"

definition fl :: "real \<Rightarrow> real" where
  "fl z =
     (if z = 0 then 0
      else let k = \<lfloor>log 2 \<bar>z\<bar>\<rfloor> - 52
           in of_int (round_even (z / two_pow k)) * two_pow k)"



section \<open>Studio page: geometry\<close>

text \<open>
  \<^verbatim>\<open>interface Point { x: number; y: number }\<close> and \<^verbatim>\<open>interface Transform\<close>.  The
  fields of a point are written \<open>px\<close> and \<open>py\<close>.
\<close>

record point =
  px :: real
  py :: real

record transform =
  zoom :: real
  rotation :: real
  panX :: real
  panY :: real
  flipX :: bool
  flipY :: bool





section \<open>Studio page: saving the pattern\<close>





















section \<open>Studio page: loading a pattern and the transform controls\<close>

text \<open>
  The status text is \<^verbatim>\<open>'Waiting for file...'\<close> or the message of
  \<^verbatim>\<open>normalizeAndCenter\<close> with the file type and the number of points.
\<close>

datatype stats_text = Stats_waiting | Stats_loaded string nat

record studio_state =
  originalPoints :: "point list"
  transform :: transform
  stats :: stats_text

definition reset_transform :: transform where
  "reset_transform =
     \<lparr>zoom = 1, rotation = 0, panX = 0, panY = 0, flipX = False, flipY = False\<rparr>"

definition studio_init :: studio_state where
  "studio_init =
     \<lparr>originalPoints = [], transform = reset_transform, stats = Stats_waiting\<rparr>"

text \<open>
  The bounding box loop.  The source starts from \<^verbatim>\<open>Infinity\<close> and
  \<^verbatim>\<open>-Infinity\<close>; the list is not empty there (early return), and the comparisons
  of the first point with the infinities all succeed, so after the first iteration
  the four variables hold the coordinates of the first point.  The equation for the
  empty list is never reached from \<open>normalizeAndCenter\<close>.
\<close>

record bbox =
  minX :: real
  maxX :: real
  minY :: real
  maxY :: real

definition bbox_step :: "bbox \<Rightarrow> point \<Rightarrow> bbox" where
  "bbox_step b p =
     \<lparr>minX = (if px p < minX b then px p else minX b),
      maxX = (if px p > maxX b then px p else maxX b),
      minY = (if py p < minY b then py p else minY b),
      maxY = (if py p > maxY b then py p else maxY b)\<rparr>"

fun bounding_box :: "point list \<Rightarrow> bbox" where
  "bounding_box [] = \<lparr>minX = 0, maxX = 0, minY = 0, maxY = 0\<rparr>"
| "bounding_box (p # ps) =
     foldl bbox_step \<lparr>minX = px p, maxX = px p, minY = py p, maxY = py p\<rparr> ps"

definition centerX :: "point list \<Rightarrow> real" where
  "centerX points = fl (fl (minX (bounding_box points) + maxX (bounding_box points)) / 2)"

definition centerY :: "point list \<Rightarrow> real" where
  "centerY points = fl (fl (minY (bounding_box points) + maxY (bounding_box points)) / 2)"

text \<open>
  The centring loop, in double arithmetic: each point is moved by the centre and
  \<^verbatim>\<open>maxR\<close> follows the largest radius seen.  The state is the list of points
  already moved and \<^verbatim>\<open>maxR\<close>.  The source updates the point objects in place; the
  parsers push a fresh object for every point, so no object occurs twice in the
  array.
\<close>

definition center_step :: "real \<Rightarrow> real \<Rightarrow> point list \<times> real \<Rightarrow> point \<Rightarrow> point list \<times> real" where
  "center_step cx cy acc p =
     (let x = fl (px p - cx);
          y = fl (py p - cy);
          r = fl (sqrt (fl (fl (x * x) + fl (y * y))))
      in (fst acc @ [\<lparr>px = x, py = y\<rparr>], if r > snd acc then r else snd acc))"

text \<open>The scaling loop divides each coordinate by \<^verbatim>\<open>maxR\<close> when it is positive.\<close>

definition normalize_points :: "point list \<Rightarrow> point list" where
  "normalize_points points =
     (let centered = foldl (center_step (centerX points) (centerY points)) ([], 0) points;
          maxR = snd centered
      in if maxR > 0
           then map (\<lambda>p. \<lparr>px = fl (px p / maxR), py = fl (py p / maxR)\<rparr>) (fst centered)
         else fst centered)"

definition normalizeAndCenter :: "point list \<Rightarrow> string \<Rightarrow> studio_state \<Rightarrow> studio_state" where
  "normalizeAndCenter points type st =
     (if length points = 0 then st
      else st\<lparr>originalPoints := normalize_points points,
              transform := reset_transform,
              stats := Stats_loaded type (length points)\<rparr>)"

text \<open>
  The user operations of the Studio page that set the transform or the points: the
  wheel on the canvas (with its \<^verbatim>\<open>deltaY\<close>), a mouse move while dragging (with the
  movement and the radius of the canvas in pixels), the two flip buttons, the four
  range inputs (with the number parsed from the input's value), the reset button, and
  a file or pattern that a parser hands to \<open>normalizeAndCenter\<close>.
\<close>

datatype studio_event =
    Wheel real
  | MouseDrag real real real
  | FlipX_click
  | FlipY_click
  | ZoomInput real
  | RotateInput real
  | PanXInput real
  | PanYInput real
  | ResetTransforms
  | LoadPoints "point list" string

definition handleWheel :: "real \<Rightarrow> transform \<Rightarrow> transform" where
  "handleWheel deltaY prev =
     prev\<lparr>zoom := min (max (zoom prev + (- deltaY * 0.001)) 0.1) 10.0\<rparr>"

definition handleMouseMove :: "real \<Rightarrow> real \<Rightarrow> real \<Rightarrow> transform \<Rightarrow> transform" where
  "handleMouseMove dx dy radiusPx prev =
     prev\<lparr>panX := panX prev + dx / radiusPx, panY := panY prev + dy / radiusPx\<rparr>"

fun studio_step :: "studio_event \<Rightarrow> studio_state \<Rightarrow> studio_state" where
  "studio_step (Wheel deltaY) st = st\<lparr>transform := handleWheel deltaY (transform st)\<rparr>"
| "studio_step (MouseDrag dx dy radiusPx) st =
     st\<lparr>transform := handleMouseMove dx dy radiusPx (transform st)\<rparr>"
| "studio_step FlipX_click st =
     st\<lparr>transform := (transform st)\<lparr>flipX := \<not> flipX (transform st)\<rparr>\<rparr>"
| "studio_step FlipY_click st =
     st\<lparr>transform := (transform st)\<lparr>flipY := \<not> flipY (transform st)\<rparr>\<rparr>"
| "studio_step (ZoomInput v) st = st\<lparr>transform := (transform st)\<lparr>zoom := v\<rparr>\<rparr>"
| "studio_step (RotateInput v) st =
     st\<lparr>transform := (transform st)\<lparr>rotation := v * pi / 180\<rparr>\<rparr>"
| "studio_step (PanXInput v) st = st\<lparr>transform := (transform st)\<lparr>panX := v\<rparr>\<rparr>"
| "studio_step (PanYInput v) st = st\<lparr>transform := (transform st)\<lparr>panY := v\<rparr>\<rparr>"
| "studio_step ResetTransforms st = st\<lparr>transform := reset_transform\<rparr>"
| "studio_step (LoadPoints points type) st = normalizeAndCenter points type st"

text \<open>
  The values a range input can report lie between its \<^verbatim>\<open>min\<close> and \<^verbatim>\<open>max\<close>
  attributes: \<open>0.1\<close> and \<open>5.0\<close> for the zoom, \<open>-180\<close> and \<open>180\<close> for the rotation,
  \<open>-1.5\<close> and \<open>1.5\<close> for the pans.  The other events are not restricted.
\<close>

fun event_ok :: "studio_event \<Rightarrow> bool" where
  "event_ok (ZoomInput v) = (0.1 \<le> v \<and> v \<le> 5.0)"
| "event_ok (RotateInput v) = (- 180 \<le> v \<and> v \<le> 180)"
| "event_ok (PanXInput v) = (- 1.5 \<le> v \<and> v \<le> 1.5)"
| "event_ok (PanYInput v) = (- 1.5 \<le> v \<and> v \<le> 1.5)"
| "event_ok _ = True"

inductive reachable :: "studio_state \<Rightarrow> bool" where
  init: "reachable studio_init"
| step: "reachable st \<Longrightarrow> event_ok e \<Longrightarrow> reachable (studio_step e st)"

code_pred reachable .


section \<open>Settings page: pause time shown as value and unit\<close>

text \<open>The string literal type \<^verbatim>\<open>'sec' | 'min' | 'hr'\<close>.\<close>

datatype pause_unit = U_sec | U_min | U_hr

text \<open>
  The remainder operator \<^verbatim>\<open>%\<close> of ECMAScript on real numbers: the dividend minus the
  divisor times the quotient truncated towards zero.  The divisor is never zero here.
\<close>

definition js_rem :: "real \<Rightarrow> real \<Rightarrow> real" where
  "js_rem a b = a - b * of_int (if 0 \<le> a / b then \<lfloor>a / b\<rfloor> else \<lceil>a / b\<rceil>)"

record display_pause =
  dp_value :: real
  dp_unit :: pause_unit

definition secondsToDisplayPause :: "real \<Rightarrow> display_pause" where
  "secondsToDisplayPause seconds =
     (if seconds \<ge> 3600 \<and> js_rem seconds 3600 = 0
        then \<lparr>dp_value = seconds / 3600, dp_unit = U_hr\<rparr>
      else if seconds \<ge> 60 \<and> js_rem seconds 60 = 0
        then \<lparr>dp_value = seconds / 60, dp_unit = U_min\<rparr>
      else \<lparr>dp_value = seconds, dp_unit = U_sec\<rparr>)"

fun displayPauseToSeconds :: "real \<Rightarrow> pause_unit \<Rightarrow> real" where
  "displayPauseToSeconds v U_hr = v * 3600"
| "displayPauseToSeconds v U_min = v * 60"
| "displayPauseToSeconds v U_sec = v"

section \<open>Playlists page: removing one entry of the selected playlist\<close>

text \<open>
  \<^verbatim>\<open>Array.prototype.splice(start, 1)\<close> on a copy of the array: a negative start counts
  from the end, a start beyond the end removes nothing, and at most one element is
  removed.  The index is an integer (the handler is called with the position of the
  row whose remove button was pressed).
\<close>

definition splice1 :: "int \<Rightarrow> 'a list \<Rightarrow> 'a list" where
  "splice1 start xs =
     (let len = int (length xs);
          actualStart = (if start < 0 then max (len + start) 0 else min start len);
          actualDeleteCount = min 1 (len - actualStart)
      in take (nat actualStart) xs @ drop (nat (actualStart + actualDeleteCount)) xs)"

text \<open>The part of the Playlists page state that the handler reads and writes.\<close>

record playlist_state =
  selectedPlaylist :: "string option"
  playlistPatterns :: "string list"
  selectedItemIndex :: int

text \<open>What the handler shows to the user (\<^verbatim>\<open>toast.success\<close>, \<^verbatim>\<open>toast.error\<close>).\<close>

datatype toast = Toast_success string | Toast_error string

text \<open>
  The request \<^verbatim>\<open>POST /modify_playlist\<close> goes to the back end, which is not part of
  these sources.  Its outcome is an input of the model: \<open>True\<close> when the promise
  resolves, \<open>False\<close> when it rejects (the \<^verbatim>\<open>catch\<close> branch).
\<close>

record remove_outcome =
  ro_state :: playlist_state
  ro_request :: "(string \<times> string list) option"
  ro_toast :: "toast option"

text \<open>
  \<^verbatim>\<open>handleRemovePattern(index)\<close>.  The guard \<^verbatim>\<open>!selectedPlaylist\<close> holds for
  \<^verbatim>\<open>null\<close> and for the empty string.
\<close>

definition handleRemovePattern :: "bool \<Rightarrow> int \<Rightarrow> playlist_state \<Rightarrow> remove_outcome" where
  "handleRemovePattern post_ok index st =
     (case selectedPlaylist st of
        None \<Rightarrow> \<lparr>ro_state = st, ro_request = None, ro_toast = None\<rparr>
      | Some name \<Rightarrow>
          if name = [] then \<lparr>ro_state = st, ro_request = None, ro_toast = None\<rparr>
          else
            let newPatterns = splice1 index (playlistPatterns st);
                request = Some (name, newPatterns)
            in if post_ok then
                 \<lparr>ro_state = st\<lparr>playlistPatterns := newPatterns,
                       selectedItemIndex :=
                         (if selectedItemIndex st = index
                            then min (selectedItemIndex st) (int (length newPatterns) - 1)
                          else if selectedItemIndex st > index
                            then selectedItemIndex st - 1
                          else selectedItemIndex st)\<rparr>,
                  ro_request = request,
                  ro_toast = Some (Toast_success ''Pattern removed'')\<rparr>
               else
                 \<lparr>ro_state = st, ro_request = request,
                  ro_toast = Some (Toast_error ''Failed to remove pattern'')\<rparr>)"

section \<open>Playlists page: estimated duration of the selected playlist\<close>

text \<open>
  \<^verbatim>\<open>interface PatternMetadata\<close>; the optional \<^verbatim>\<open>estimated_duration\<close> is \<open>None\<close>
  when it is missing or \<^verbatim>\<open>null\<close>.
\<close>

record pattern_metadata =
  pm_path :: string
  pm_name :: string
  pm_category :: string
  pm_date_modified :: real
  pm_coordinates_count :: real
  pm_estimated_duration :: "string option"

text \<open>
  \<^verbatim>\<open>duration.match(/(\d+)h/)\<close> with \<open>c\<close> for the letter: the first run of decimal
  digits that the letter follows; the result is the run (capture group 1).  The second
  argument collects the run being read.
\<close>

definition is_digit :: "char \<Rightarrow> bool" where
  "is_digit c = (c \<in> set ''0123456789'')"

fun match_digits_then :: "char \<Rightarrow> string \<Rightarrow> string \<Rightarrow> string option" where
  "match_digits_then c run [] = None"
| "match_digits_then c run (ch # rest) =
     (if is_digit ch then match_digits_then c (run @ [ch]) rest
      else if ch = c \<and> run \<noteq> [] then Some run
      else match_digits_then c [] rest)"

text \<open>\<^verbatim>\<open>parseInt\<close> on a string of decimal digits.\<close>

definition parseInt_digits :: "string \<Rightarrow> nat" where
  "parseInt_digits ds = foldl (\<lambda>n ch. 10 * n + (of_char ch - 48)) 0 ds"

text \<open>
  The seconds of a duration string such as \<^verbatim>\<open>5m\<close>, \<^verbatim>\<open>1h 15m\<close> or \<^verbatim>\<open><1m\<close>; the
  same lines occur in \<^verbatim>\<open>getClearPatternDurationByName\<close> and in
  \<^verbatim>\<open>playlistDurations\<close>.
\<close>

definition duration_seconds :: "string \<Rightarrow> nat" where
  "duration_seconds duration =
     (if duration = ''<1m'' then 30
      else (case match_digits_then CHR ''h'' [] duration of
              Some ds \<Rightarrow> parseInt_digits ds * 3600 | None \<Rightarrow> 0)
         + (case match_digits_then CHR ''m'' [] duration of
              Some ds \<Rightarrow> parseInt_digits ds * 60 | None \<Rightarrow> 0))"

text \<open>\<^verbatim>\<open>s.startsWith(b)\<close>.\<close>

definition startsWith :: "string \<Rightarrow> string \<Rightarrow> bool" where
  "startsWith s b = (take (length b) s = b)"

text \<open>\<^verbatim>\<open>getPauseTimeInSeconds\<close>, on the state \<^verbatim>\<open>pauseTime\<close> and \<^verbatim>\<open>pauseUnit\<close>.\<close>

fun getPauseTimeInSeconds :: "real \<Rightarrow> pause_unit \<Rightarrow> real" where
  "getPauseTimeInSeconds pauseTime U_hr = pauseTime * 3600"
| "getPauseTimeInSeconds pauseTime U_min = pauseTime * 60"
| "getPauseTimeInSeconds pauseTime U_sec = pauseTime"

text \<open>
  \<^verbatim>\<open>getClearPatternDurationByName\<close>: \<open>None\<close> is \<^verbatim>\<open>null\<close>.  An empty duration
  string is falsy, as a missing one.
\<close>

definition getClearPatternDurationByName :: "pattern_metadata list \<Rightarrow> string \<Rightarrow> nat option" where
  "getClearPatternDurationByName allPatterns baseName =
     (case find (\<lambda>p. startsWith (pm_name p) baseName \<and> startsWith (pm_path p) ''patterns/'')
             allPatterns of
        None \<Rightarrow> None
      | Some found \<Rightarrow>
          (case pm_estimated_duration found of
             None \<Rightarrow> None
           | Some duration \<Rightarrow>
               if duration = [] then None else Some (duration_seconds duration)))"

text \<open>
  \<^verbatim>\<open>estimateClearPatternDuration\<close>.  The clear pattern is a string here: the state
  is read from the local storage without a check.  A duration of \<open>0\<close> is falsy in
  \<^verbatim>\<open>inDuration && outDuration\<close> and in \<^verbatim>\<open>... || 120\<close>.
\<close>

definition estimateClearPatternDuration :: "pattern_metadata list \<Rightarrow> string \<Rightarrow> real" where
  "estimateClearPatternDuration allPatterns type =
     (if type = ''none'' then 0
      else if type = ''clear_from_in'' \<or> type = ''clear_from_out'' \<or> type = ''clear_sideway''
        then (case getClearPatternDurationByName allPatterns type of
                Some n \<Rightarrow> if n \<noteq> 0 then real n else 120
              | None \<Rightarrow> 120)
      else if type = ''adaptive''
        then (case (getClearPatternDurationByName allPatterns ''clear_from_in'',
                    getClearPatternDurationByName allPatterns ''clear_from_out'') of
                (Some inDuration, Some outDuration) \<Rightarrow>
                  if inDuration \<noteq> 0 \<and> outDuration \<noteq> 0
                    then (real inDuration + real outDuration) / 2
                  else 105
              | _ \<Rightarrow> 105)
      else 0)"

record durations =
  d_patterns :: real
  d_clears :: real
  d_pauses :: real
  d_total :: real

text \<open>
  The body of the loop over the paths of the playlist; the state is
  \<^verbatim>\<open>totalPatternSeconds\<close> and \<^verbatim>\<open>totalClearSeconds\<close>.
\<close>

definition duration_step ::
  "pattern_metadata list \<Rightarrow> string \<Rightarrow> real \<times> real \<Rightarrow> string \<Rightarrow> real \<times> real" where
  "duration_step allPatterns clearPattern acc path =
     (case find (\<lambda>p. pm_path p = path) allPatterns of
        None \<Rightarrow> acc
      | Some patternMeta \<Rightarrow>
          (case pm_estimated_duration patternMeta of
             None \<Rightarrow> acc
           | Some duration \<Rightarrow>
               if duration = [] then acc
               else (fst acc + real (duration_seconds duration),
                     if clearPattern \<noteq> ''none''
                       then snd acc + estimateClearPatternDuration allPatterns clearPattern
                     else snd acc)))"

text \<open>
  \<^verbatim>\<open>playlistDurations\<close>: \<open>None\<close> is \<^verbatim>\<open>null\<close>, the result when no playlist is
  selected or the selected one has no patterns.
\<close>

definition playlistDurations ::
  "string option \<Rightarrow> string list \<Rightarrow> pattern_metadata list \<Rightarrow> string \<Rightarrow> real \<Rightarrow> pause_unit
     \<Rightarrow> durations option" where
  "playlistDurations selected patterns allPatterns clearPattern pauseTime pauseUnit =
     (if selected = None \<or> selected = Some [] \<or> length patterns = 0 then None
      else
        let pausePerPattern = getPauseTimeInSeconds pauseTime pauseUnit;
            totalPauseSeconds =
              (if length patterns > 1 then pausePerPattern * (real (length patterns) - 1)
               else 0);
            acc = foldl (duration_step allPatterns clearPattern) (0, 0) patterns;
            totalSeconds = fst acc + snd acc + totalPauseSeconds
        in Some \<lparr>d_patterns = fst acc, d_clears = snd acc,
                 d_pauses = totalPauseSeconds, d_total = totalSeconds\<rparr>)"

section \<open>History and Settings pages: the clear pattern options\<close>








section \<open>Theorems\<close>

subsection \<open>Double arithmetic\<close>



























subsection \<open>Saving the pattern\<close>



















































































subsection \<open>Loading a pattern and the zoom factor\<close>







































lemma handleWheel_zoom:
  "0.1 \<le> zoom (handleWheel deltaY prev) \<and> zoom (handleWheel deltaY prev) \<le> 10"
  by (simp add: handleWheel_def)

lemma normalizeAndCenter_zoom:
  "zoom (transform (normalizeAndCenter points type st)) =
     (if points = [] then zoom (transform st) else 1)"
  by (simp add: normalizeAndCenter_def reset_transform_def)

lemma studio_step_zoom:
  assumes "event_ok e" and "0.1 \<le> zoom (transform st) \<and> zoom (transform st) \<le> 10"
  shows "0.1 \<le> zoom (transform (studio_step e st)) \<and> zoom (transform (studio_step e st)) \<le> 10"
  using assms
  by (cases e)
     (simp_all add: handleWheel_def handleMouseMove_def reset_transform_def
        normalizeAndCenter_zoom)

text \<open>
  Claim C10.  In every state reachable from the initial state of the Studio page by
  the user operations (wheel, drag, flips, the four range inputs within their
  \<^verbatim>\<open>min\<close> and \<^verbatim>\<open>max\<close>, reset, loading points) the zoom factor lies in
  \<open>[0.1, 10]\<close>.
\<close>

theorem zoom_invariant:
  "reachable st \<Longrightarrow> 0.1 \<le> zoom (transform st) \<and> zoom (transform st) \<le> 10"
proof (induction rule: reachable.induct)
  case init
  show ?case by (simp add: studio_init_def reset_transform_def)
next
  case (step st e)
  then show ?case by (intro studio_step_zoom)
qed

theorem zoom_invariant_witness:
  "reachable (studio_step (Wheel (- 20000)) (studio_step (ZoomInput 5) studio_init))
   \<and> zoom (transform (studio_step (Wheel (- 20000)) (studio_step (ZoomInput 5) studio_init))) = 10
   \<and> 0.1 \<le> zoom (transform (studio_step (Wheel (- 20000)) (studio_step (ZoomInput 5) studio_init)))
   \<and> zoom (transform (studio_step (Wheel (- 20000)) (studio_step (ZoomInput 5) studio_init))) \<le> 10"
proof -
  have r: "reachable (studio_step (Wheel (- 20000)) (studio_step (ZoomInput 5) studio_init))"
    by (intro reachable.step reachable.init) simp_all
  have z: "zoom (transform (studio_step (Wheel (- 20000)) (studio_step (ZoomInput 5) studio_init))) = 10"
    by (simp add: handleWheel_def)
  from zoom_invariant [OF r] r z show ?thesis by blast
qed

subsection \<open>Removing an entry\<close>

lemma splice1_valid:
  "i < length xs \<Longrightarrow> splice1 (int i) xs = take i xs @ drop (Suc i) xs"
  by (simp add: splice1_def Let_def min_def nat_add_distrib)

lemma mset_remove_nth:
  "i < length xs \<Longrightarrow> mset (take i xs @ drop (Suc i) xs) = mset xs - {#xs ! i#}"
proof -
  assume "i < length xs"
  then have "xs = take i xs @ xs ! i # drop (Suc i) xs"
    by (simp add: id_take_nth_drop)
  then have "mset xs = mset (take i xs @ drop (Suc i) xs) + {#xs ! i#}"
    by (metis mset.simps(2) mset_append union_mset_add_mset_right add_mset_add_single)
  then show ?thesis by simp
qed

text \<open>
  Claim C4.  For a selected playlist and a valid index \<open>i\<close>, \<open>handleRemovePattern\<close>
  sends the list with exactly the element at position \<open>i\<close> deleted, and stores it
  when the back end accepts the request: the prefix before \<open>i\<close> and the suffix after
  \<open>i\<close> are kept in order, the length drops by one, and every path keeps its other
  occurrences (as a multiset, only one copy of the removed path is gone).
\<close>

theorem handleRemovePattern_removes_one:
  assumes "selectedPlaylist st = Some name" and "name \<noteq> []"
    and "i < length (playlistPatterns st)"
  shows "playlistPatterns (ro_state (handleRemovePattern True (int i) st))
           = take i (playlistPatterns st) @ drop (Suc i) (playlistPatterns st)
       \<and> ro_request (handleRemovePattern post_ok (int i) st)
           = Some (name, take i (playlistPatterns st) @ drop (Suc i) (playlistPatterns st))
       \<and> length (playlistPatterns (ro_state (handleRemovePattern True (int i) st)))
           = length (playlistPatterns st) - 1
       \<and> mset (playlistPatterns (ro_state (handleRemovePattern True (int i) st)))
           = mset (playlistPatterns st) - {#playlistPatterns st ! i#}"
proof -
  let ?xs = "playlistPatterns st"
  have r: "playlistPatterns (ro_state (handleRemovePattern True (int i) st))
             = take i ?xs @ drop (Suc i) ?xs"
    using assms by (simp add: handleRemovePattern_def Let_def splice1_valid)
  have q: "ro_request (handleRemovePattern post_ok (int i) st)
             = Some (name, take i ?xs @ drop (Suc i) ?xs)"
    using assms by (simp add: handleRemovePattern_def Let_def splice1_valid)
  have l: "length (take i ?xs @ drop (Suc i) ?xs) = length ?xs - 1"
    using assms(3) by simp
  show ?thesis
    using r q l mset_remove_nth [OF assms(3)] by simp
qed

theorem handleRemovePattern_removes_one_witness:
  "playlistPatterns (ro_state (handleRemovePattern True 1
       \<lparr>selectedPlaylist = Some ''fav'', playlistPatterns = [''a.thr'', ''b.thr'', ''a.thr''],
        selectedItemIndex = 0\<rparr>)) = [''a.thr'', ''a.thr'']"
  using handleRemovePattern_removes_one
    [of "\<lparr>selectedPlaylist = Some ''fav'', playlistPatterns = [''a.thr'', ''b.thr'', ''a.thr''],
          selectedItemIndex = 0\<rparr>" "''fav''" 1]
  by simp

text \<open>
  The claim C5 as stated fails when the request is rejected.  For the playlist
  \<^verbatim>\<open>fav\<close> with the single entry \<^verbatim>\<open>a.thr\<close> and a request that fails, the handler
  ends in its \<^verbatim>\<open>catch\<close> branch: the stored playlist still has its entry and the
  toast is the error \<^verbatim>\<open>Failed to remove pattern\<close>.
\<close>

theorem handleRemovePattern_last_entry_rejected:
  "playlistPatterns (ro_state (handleRemovePattern False 0
       \<lparr>selectedPlaylist = Some ''fav'', playlistPatterns = [''a.thr''],
        selectedItemIndex = 0\<rparr>)) = [''a.thr'']
   \<and> ro_toast (handleRemovePattern False 0
       \<lparr>selectedPlaylist = Some ''fav'', playlistPatterns = [''a.thr''],
        selectedItemIndex = 0\<rparr>) = Some (Toast_error ''Failed to remove pattern'')"
  by (simp add: handleRemovePattern_def Let_def splice1_def)

text \<open>
  Claim C5, amended.  Removing the only entry of a one-element playlist is not
  refused by the handler, which has no guard on the length: the request to the back
  end carries the empty list.  When the request succeeds the stored playlist is
  empty, the playlist stays selected and the success toast \<^verbatim>\<open>Pattern removed\<close> is
  shown.  When the request fails the state is left as it was and the error toast
  \<^verbatim>\<open>Failed to remove pattern\<close> is shown.
\<close>

theorem handleRemovePattern_last_entry:
  assumes "selectedPlaylist st = Some name" and "name \<noteq> []"
    and "playlistPatterns st = [p]"
  shows "ro_request (handleRemovePattern post_ok 0 st) = Some (name, [])
       \<and> (if post_ok
           then playlistPatterns (ro_state (handleRemovePattern post_ok 0 st)) = []
              \<and> selectedPlaylist (ro_state (handleRemovePattern post_ok 0 st)) = Some name
              \<and> ro_toast (handleRemovePattern post_ok 0 st)
                  = Some (Toast_success ''Pattern removed'')
           else ro_state (handleRemovePattern post_ok 0 st) = st
              \<and> ro_toast (handleRemovePattern post_ok 0 st)
                  = Some (Toast_error ''Failed to remove pattern''))"
  using assms by (simp add: handleRemovePattern_def Let_def splice1_def)

theorem handleRemovePattern_last_entry_witness:
  "ro_request (handleRemovePattern True 0
       \<lparr>selectedPlaylist = Some ''fav'', playlistPatterns = [''a.thr''],
        selectedItemIndex = 0\<rparr>) = Some (''fav'', [])
   \<and> playlistPatterns (ro_state (handleRemovePattern True 0
       \<lparr>selectedPlaylist = Some ''fav'', playlistPatterns = [''a.thr''],
        selectedItemIndex = 0\<rparr>)) = []
   \<and> ro_toast (handleRemovePattern True 0
       \<lparr>selectedPlaylist = Some ''fav'', playlistPatterns = [''a.thr''],
        selectedItemIndex = 0\<rparr>) = Some (Toast_success ''Pattern removed'')"
  using handleRemovePattern_last_entry
    [of "\<lparr>selectedPlaylist = Some ''fav'', playlistPatterns = [''a.thr''],
          selectedItemIndex = 0\<rparr>" "''fav''" "''a.thr''" True]
  by simp

subsection \<open>Pauses in the estimated duration\<close>

lemma duration_seconds_examples:
  "duration_seconds ''1h 15m'' = 4500"
  "duration_seconds ''5m'' = 300"
  "duration_seconds ''<1m'' = 30"
  by (simp_all add: duration_seconds_def is_digit_def parseInt_digits_def)

text \<open>
  Claim C6.  An estimate is produced exactly when a playlist is selected and has at
  least one pattern.  Its pause part is the pause time in seconds times \<open>n - 1\<close> for
  a playlist of \<open>n > 1\<close> patterns and \<open>0\<close> for a single pattern: one pause between
  two patterns, none after the last.  The total is the sum of the three parts.
\<close>

theorem playlistDurations_pauses:
  "(playlistDurations selected patterns allPatterns clearPattern pauseTime pauseUnit = None
      \<longleftrightarrow> selected = None \<or> selected = Some [] \<or> patterns = [])
   \<and> (\<forall>d. playlistDurations selected patterns allPatterns clearPattern pauseTime pauseUnit = Some d
          \<longrightarrow> d_pauses d =
                (if length patterns > 1
                   then getPauseTimeInSeconds pauseTime pauseUnit * (real (length patterns) - 1)
                 else 0)
            \<and> d_total d = d_patterns d + d_clears d + d_pauses d)"
  by (auto simp: playlistDurations_def Let_def)

theorem playlistDurations_pauses_witness:
  "playlistDurations (Some ''fav'') [''a.thr'', ''b.thr'', ''a.thr'']
     [\<lparr>pm_path = ''a.thr'', pm_name = ''a'', pm_category = [], pm_date_modified = 0,
       pm_coordinates_count = 10, pm_estimated_duration = Some ''5m''\<rparr>,
      \<lparr>pm_path = ''b.thr'', pm_name = ''b'', pm_category = [], pm_date_modified = 0,
       pm_coordinates_count = 10, pm_estimated_duration = Some ''1h 15m''\<rparr>]
     ''adaptive'' 5 U_min
     = Some \<lparr>d_patterns = 5100, d_clears = 315, d_pauses = 600, d_total = 6015\<rparr>
   \<and> d_pauses \<lparr>d_patterns = 5100, d_clears = 315, d_pauses = 600, d_total = 6015\<rparr>
       = getPauseTimeInSeconds 5 U_min * (real (length [''a.thr'', ''b.thr'', ''a.thr'']) - 1)"
proof -
  let ?all = "[\<lparr>pm_path = ''a.thr'', pm_name = ''a'', pm_category = [], pm_date_modified = 0,
                 pm_coordinates_count = 10, pm_estimated_duration = Some ''5m''\<rparr>,
               \<lparr>pm_path = ''b.thr'', pm_name = ''b'', pm_category = [], pm_date_modified = 0,
                 pm_coordinates_count = 10, pm_estimated_duration = Some ''1h 15m''\<rparr>]"
  let ?pats = "[''a.thr'', ''b.thr'', ''a.thr'']"
  let ?d = "\<lparr>d_patterns = 5100, d_clears = 315, d_pauses = 600, d_total = 6015\<rparr>"
  have e: "playlistDurations (Some ''fav'') ?pats ?all ''adaptive'' 5 U_min = Some ?d"
    by (simp add: playlistDurations_def Let_def duration_step_def duration_seconds_examples
        estimateClearPatternDuration_def getClearPatternDurationByName_def startsWith_def)
  have n: "length ?pats > 1" by simp
  from playlistDurations_pauses [of "Some ''fav''" ?pats ?all "''adaptive''" 5 U_min] e
  have "d_pauses ?d
          = (if length ?pats > 1
               then getPauseTimeInSeconds 5 U_min * (real (length ?pats) - 1)
             else 0)"
    by blast
  with n have "d_pauses ?d = getPauseTimeInSeconds 5 U_min * (real (length ?pats) - 1)"
    by (simp only: if_True)
  with e show ?thesis by blast
qed

subsection \<open>Clear pattern options\<close>




subsection \<open>Pause time round trip\<close>

text \<open>
  Claim C8.  Converting a number of seconds to a display value and unit and back gives
  the same number of seconds.  The statement holds for every real \<open>s\<close>, in particular
  for every non-negative one.
\<close>

theorem displayPause_roundtrip:
  "displayPauseToSeconds (dp_value (secondsToDisplayPause s))
                         (dp_unit (secondsToDisplayPause s)) = s"
  by (simp add: secondsToDisplayPause_def)

end
